theory Spec2Isabelle
  imports Main "HOL-Library.Word"
begin

unbundle bit_operations_syntax

section \<open>The code generator: \<open>generate_short_url\<close>\<close>

text \<open>
  \<^verbatim>\<open>
  def generate_short_url(full_url):
      return hashlib.md5(full_url.encode()).hexdigest()[:6]
  \<close>
  A URL is modelled by the bytes of its UTF-8 encoding, so \<open>full_url.encode()\<close> reads each
  character of the \<open>string\<close> as one byte. The digest is MD5 as RFC 1321 defines it, on 32-bit
  words, and \<open>hexdigest\<close> prints its sixteen bytes as lower-case hexadecimal.
\<close>

type_synonym u32 = "32 word"
type_synonym byte = "8 word"

definition encode :: "string \<Rightarrow> byte list" where
  "encode s = map of_char s"

definition md5_K :: "u32 list" where
  "md5_K =
    [0xd76aa478, 0xe8c7b756, 0x242070db, 0xc1bdceee, 0xf57c0faf, 0x4787c62a, 0xa8304613, 0xfd469501,
     0x698098d8, 0x8b44f7af, 0xffff5bb1, 0x895cd7be, 0x6b901122, 0xfd987193, 0xa679438e, 0x49b40821,
     0xf61e2562, 0xc040b340, 0x265e5a51, 0xe9b6c7aa, 0xd62f105d, 0x02441453, 0xd8a1e681, 0xe7d3fbc8,
     0x21e1cde6, 0xc33707d6, 0xf4d50d87, 0x455a14ed, 0xa9e3e905, 0xfcefa3f8, 0x676f02d9, 0x8d2a4c8a,
     0xfffa3942, 0x8771f681, 0x6d9d6122, 0xfde5380c, 0xa4beea44, 0x4bdecfa9, 0xf6bb4b60, 0xbebfbc70,
     0x289b7ec6, 0xeaa127fa, 0xd4ef3085, 0x04881d05, 0xd9d4d039, 0xe6db99e5, 0x1fa27cf8, 0xc4ac5665,
     0xf4292244, 0x432aff97, 0xab9423a7, 0xfc93a039, 0x655b59c3, 0x8f0ccc92, 0xffeff47d, 0x85845dd1,
     0x6fa87e4f, 0xfe2ce6e0, 0xa3014314, 0x4e0811a1, 0xf7537e82, 0xbd3af235, 0x2ad7d2bb, 0xeb86d391]"

definition md5_s :: "nat list" where
  "md5_s =
    [7, 12, 17, 22, 7, 12, 17, 22, 7, 12, 17, 22, 7, 12, 17, 22,
     5, 9, 14, 20, 5, 9, 14, 20, 5, 9, 14, 20, 5, 9, 14, 20,
     4, 11, 16, 23, 4, 11, 16, 23, 4, 11, 16, 23, 4, 11, 16, 23,
     6, 10, 15, 21, 6, 10, 15, 21, 6, 10, 15, 21, 6, 10, 15, 21]"

definition rotl32 :: "u32 \<Rightarrow> nat \<Rightarrow> u32" where
  "rotl32 x n = push_bit n x OR drop_bit (32 - n) x"

definition le_bytes :: "nat \<Rightarrow> 'a::len word \<Rightarrow> byte list" where
  \<comment> \<open>the \<open>k\<close> low bytes of \<open>w\<close>, least significant first\<close>
  "le_bytes k w = map (\<lambda>i. ucast (drop_bit (8 * i) w)) [0..<k]"

definition md5_pad :: "byte list \<Rightarrow> byte list" where
  "md5_pad m =
     m @ [0x80] @ replicate ((119 - length m mod 64) mod 64) 0 @ le_bytes 8 (8 * of_nat (length m) :: 64 word)"

definition le_word :: "byte list \<Rightarrow> u32" where
  "le_word bs = foldr (\<lambda>b w. ucast b OR push_bit 8 w) bs 0"

definition block_words :: "byte list \<Rightarrow> u32 list" where
  "block_words blk = map (\<lambda>j. le_word (take 4 (drop (4 * j) blk))) [0..<16]"

type_synonym md5_state = "u32 \<times> u32 \<times> u32 \<times> u32"

fun md5_step :: "u32 list \<Rightarrow> md5_state \<Rightarrow> nat \<Rightarrow> md5_state" where
  "md5_step M (a, b, c, d) i =
     (let (f, g) =
            (if i < 16 then ((b AND c) OR (NOT b AND d), i)
             else if i < 32 then ((d AND b) OR (NOT d AND c), (5 * i + 1) mod 16)
             else if i < 48 then (b XOR c XOR d, (3 * i + 5) mod 16)
             else (c XOR (b OR NOT d), (7 * i) mod 16));
          f' = f + a + md5_K ! i + M ! g
      in (d, b + rotl32 f' (md5_s ! i), b, c))"

fun md5_block :: "md5_state \<Rightarrow> byte list \<Rightarrow> md5_state" where
  "md5_block (a0, b0, c0, d0) blk =
     (case foldl (md5_step (block_words blk)) (a0, b0, c0, d0) [0..<64] of
        (a, b, c, d) \<Rightarrow> (a0 + a, b0 + b, c0 + c, d0 + d))"

definition md5_blocks :: "byte list \<Rightarrow> byte list list" where
  "md5_blocks p = map (\<lambda>k. take 64 (drop (64 * k) p)) [0..<length p div 64]"

definition md5_init :: md5_state where
  "md5_init = (0x67452301, 0xefcdab89, 0x98badcfe, 0x10325476)"

definition md5 :: "byte list \<Rightarrow> byte list" where
  "md5 m =
     (case foldl md5_block md5_init (md5_blocks (md5_pad m)) of
        (a, b, c, d) \<Rightarrow> concat (map (\<lambda>w. le_bytes 4 w) [a, b, c, d]))"

definition hex_digit :: "byte \<Rightarrow> char" where
  "hex_digit n = ''0123456789abcdef'' ! unat (n AND 0xf)"

definition hex_byte :: "byte \<Rightarrow> string" where
  "hex_byte b = [hex_digit (drop_bit 4 b), hex_digit b]"

definition hexdigest :: "byte list \<Rightarrow> string" where
  "hexdigest bs = concat (map hex_byte bs)"

definition generate_short_url :: "string \<Rightarrow> string" where
  "generate_short_url full_url = take 6 (hexdigest (md5 (encode full_url)))"


section \<open>The counter store\<close>

text \<open>
  The Redis database holds integer counters under string keys, each with an optional expiry
  deadline. Time is in seconds. A command on a key first removes the key when its deadline has
  passed, as the server does on access, so an expired key reads as a missing one.
\<close>

record entry =
  val :: int
  deadline :: "nat option"

type_synonym redis = "string \<rightharpoonup> entry"

definition MAX_CONCURRENT_REQUESTS :: int where
  "MAX_CONCURRENT_REQUESTS = 100"

definition REQUEST_TTL :: nat where
  "REQUEST_TTL = 60"

definition MAX_CONCURRENT_REQUESTS_FOR_ONE_USER :: int where
  "MAX_CONCURRENT_REQUESTS_FOR_ONE_USER = 100"

definition is_expired :: "nat \<Rightarrow> entry \<Rightarrow> bool" where
  "is_expired now e = (case deadline e of None \<Rightarrow> False | Some d \<Rightarrow> d \<le> now)"

definition expire_if_needed :: "nat \<Rightarrow> string \<Rightarrow> redis \<Rightarrow> redis" where
  "expire_if_needed now k st =
     (case st k of
        None \<Rightarrow> st
      | Some e \<Rightarrow> if is_expired now e then st(k := None) else st)"

definition redis_incr :: "nat \<Rightarrow> string \<Rightarrow> redis \<Rightarrow> int \<times> redis" where
  \<comment> \<open>INCR: a missing key counts from 0; the deadline of a live key is kept\<close>
  "redis_incr now k st =
     (let st' = expire_if_needed now k st;
          e = (case st' k of
                 None \<Rightarrow> \<lparr>val = 1, deadline = None\<rparr>
               | Some e \<Rightarrow> e\<lparr>val := val e + 1\<rparr>)
      in (val e, st'(k \<mapsto> e)))"

definition redis_decr :: "nat \<Rightarrow> string \<Rightarrow> redis \<Rightarrow> int \<times> redis" where
  \<comment> \<open>DECR: a missing key counts from 0; the deadline of a live key is kept\<close>
  "redis_decr now k st =
     (let st' = expire_if_needed now k st;
          e = (case st' k of
                 None \<Rightarrow> \<lparr>val = - 1, deadline = None\<rparr>
               | Some e \<Rightarrow> e\<lparr>val := val e - 1\<rparr>)
      in (val e, st'(k \<mapsto> e)))"

definition redis_expire :: "nat \<Rightarrow> string \<Rightarrow> nat \<Rightarrow> redis \<Rightarrow> redis" where
  \<comment> \<open>EXPIRE: the key, when present, expires \<open>ttl\<close> seconds from now\<close>
  "redis_expire now k ttl st =
     (let st' = expire_if_needed now k st
      in case st' k of
           None \<Rightarrow> st'
         | Some e \<Rightarrow> st'(k \<mapsto> e\<lparr>deadline := Some (now + ttl)\<rparr>))"

definition redis_get :: "nat \<Rightarrow> string \<Rightarrow> redis \<Rightarrow> int option \<times> redis" where
  "redis_get now k st =
     (let st' = expire_if_needed now k st in (map_option val (st' k), st'))"

definition user_key :: "string \<Rightarrow> string" where
  "user_key user_id = ''user_requests:'' @ user_id"

definition total_key :: string where
  "total_key = ''total_requests''"

text \<open>
  \<^verbatim>\<open>
  def check_rate_limit(user_id):
      pipeline = redis_client.pipeline()
      pipeline.incr(user_key)
      pipeline.incr(total_key)
      pipeline.expire(user_key, REQUEST_TTL)
      pipeline.expire(total_key, REQUEST_TTL)
      results = pipeline.execute()
      current_user_requests = results[0]
      current_total_requests = results[1]
      if current_total_requests > MAX_CONCURRENT_REQUESTS or \
         current_user_requests > MAX_CONCURRENT_REQUESTS_FOR_ONE_USER:
          return False
      return True
  \<close>
  The pipeline runs as one transaction at the server's time \<open>now\<close>.
\<close>

definition check_rate_limit :: "nat \<Rightarrow> string \<Rightarrow> redis \<Rightarrow> bool \<times> redis" where
  "check_rate_limit now user_id st =
     (case redis_incr now (user_key user_id) st of
        (current_user_requests, st1) \<Rightarrow>
          (case redis_incr now total_key st1 of
             (current_total_requests, st2) \<Rightarrow>
               (let st3 = redis_expire now (user_key user_id) REQUEST_TTL st2;
                    st4 = redis_expire now total_key REQUEST_TTL st3
                in if current_total_requests > MAX_CONCURRENT_REQUESTS
                      \<or> current_user_requests > MAX_CONCURRENT_REQUESTS_FOR_ONE_USER
                   then (False, st4)
                   else (True, st4))))"

text \<open>
  The release step is the body of the \<open>finally\<close> block of \<open>GenerateURL.post\<close>, under its
  \<open>if counters_increased\<close>:
  \<^verbatim>\<open>
  if user_id is not None:
      current_user_requests = redis_client.get(f"user_requests:{user_id}")
      if current_user_requests and int(current_user_requests) > 0:
          redis_client.decr(f"user_requests:{user_id}")
  current_total_requests = redis_client.get("total_requests")
  if current_total_requests and int(current_total_requests) > 0:
      redis_client.decr("total_requests")
  \<close>
\<close>

definition decr_if_positive :: "nat \<Rightarrow> string \<Rightarrow> redis \<Rightarrow> redis" where
  "decr_if_positive now k st =
     (case redis_get now k st of
        (current, st') \<Rightarrow>
          (case current of
             None \<Rightarrow> st'
           | Some v \<Rightarrow> if v > 0 then snd (redis_decr now k st') else st'))"

definition release :: "nat \<Rightarrow> string option \<Rightarrow> redis \<Rightarrow> redis" where
  "release now user_id st =
     (let st1 = (case user_id of
                   None \<Rightarrow> st
                 | Some u \<Rightarrow> decr_if_positive now (user_key u) st)
      in decr_if_positive now total_key st1)"


section \<open>The link table\<close>

text \<open>
  The table \<open>url_map\<close> of \<open>create_table\<close> has the columns \<open>id\<close>, \<open>full_url\<close>, \<open>short_url\<close>
  and \<open>created_at\<close>, and no uniqueness constraint. It is a list of rows in insertion order,
  which is the order a \<open>SELECT\<close> without \<open>ORDER BY\<close> scans them in, so \<open>fetchone\<close> is the first
  match. \<open>created_at\<close> is the text \<open>%Y-%m-%d %H:%M:%S\<close>, a time in whole seconds; the wall
  clock \<open>datetime.now()\<close> is in microseconds.
\<close>

record url_row =
  row_id :: nat
  full_url :: string
  short_url :: string
  created_at :: nat

type_synonym url_map = "url_row list"

definition strftime :: "nat \<Rightarrow> nat" where
  \<comment> \<open>\<open>now.strftime('%Y-%m-%d %H:%M:%S')\<close> drops the microseconds\<close>
  "strftime now = now div 1000000"

definition is_link_expired :: "nat \<Rightarrow> nat \<Rightarrow> bool" where
  \<comment> \<open>\<open>datetime.now() > created_at_dt + timedelta(minutes=10)\<close>, at the time \<open>now\<close>\<close>
  "is_link_expired now created = (now > (created + 10 * 60) * 1000000)"

definition select_by_full_url :: "string \<Rightarrow> url_map \<Rightarrow> url_row option" where
  "select_by_full_url u tbl = find (\<lambda>r. full_url r = u) tbl"

definition select_by_short_url :: "string \<Rightarrow> url_map \<Rightarrow> url_row option" where
  "select_by_short_url c tbl = find (\<lambda>r. short_url r = c) tbl"

definition update_row :: "string \<Rightarrow> string \<Rightarrow> nat \<Rightarrow> url_map \<Rightarrow> url_map" where
  \<comment> \<open>\<open>UPDATE url_map SET short_url = ?, created_at = ? WHERE full_url = ?\<close>\<close>
  "update_row u c t tbl =
     map (\<lambda>r. if full_url r = u then r\<lparr>short_url := c, created_at := t\<rparr> else r) tbl"

definition insert_row :: "string \<Rightarrow> string \<Rightarrow> nat \<Rightarrow> url_map \<Rightarrow> url_map" where
  \<comment> \<open>\<open>INSERT INTO url_map (full_url, short_url, created_at) VALUES (?, ?, ?)\<close>\<close>
  "insert_row u c t tbl =
     tbl @ [\<lparr>row_id = Suc (foldr max (map row_id tbl) 0),
             full_url = u, short_url = c, created_at = t\<rparr>]"

section \<open>The endpoints\<close>

datatype body = Error string | ShortUrl string | FullUrl string | Redirect string

type_synonym response = "body \<times> nat"

datatype 'a outcome = Return 'a | Raise

text \<open>
  Where a store can fail. A fault is raised at the named statement when the run reaches it:
  the pipeline of \<open>check_rate_limit\<close> before it takes effect, \<open>sqlite3.connect\<close>, the
  \<open>SELECT\<close>, the \<open>UPDATE\<close> or \<open>INSERT\<close>, or \<open>conn.commit()\<close>. A connection closed without
  a commit leaves the table as it was.
\<close>

datatype fault = NoFault | AdmitFault | ConnectFault | SelectFault | WriteFault | CommitFault

text \<open>
  The JSON body of \<open>POST /generate\<close>: \<open>request.json.get(...)\<close> is \<open>None\<close> for an absent
  field and the string otherwise.
\<close>

record json_body =
  j_full_url :: "string option"
  j_user_id :: "string option"

text \<open>
  The times a request reads: the server's time at the pipeline and at the release, and
  \<open>datetime.now()\<close> in \<open>is_link_expired\<close> and at the write.
\<close>

record clock =
  r_admit :: nat
  t_check :: nat
  t_write :: nat
  r_release :: nat

text \<open>
  The database section of \<open>GenerateURL.post\<close>, from \<open>with get_db_connection() as conn\<close> to
  \<open>return {"short_url": short_url}, 201\<close>.
\<close>

definition upsert_write ::
  "fault \<Rightarrow> clock \<Rightarrow> string \<Rightarrow> url_row option \<Rightarrow> url_map \<Rightarrow> response outcome \<times> url_map" where
  \<comment> \<open>from \<open>short_url = generate_short_url(full_url)\<close> on, \<open>row\<close> being the fetched row\<close>
  "upsert_write flt clk u row tbl =
     (let short = generate_short_url u;
          created = strftime (t_write clk)
      in if flt = WriteFault \<or> flt = CommitFault then (Raise, tbl)
         else (Return (ShortUrl short, 201),
               (case row of
                  Some r \<Rightarrow> update_row u short created tbl
                | None \<Rightarrow> insert_row u short created tbl)))"

definition upsert :: "fault \<Rightarrow> clock \<Rightarrow> string \<Rightarrow> url_map \<Rightarrow> response outcome \<times> url_map" where
  "upsert flt clk u tbl =
     (if flt = ConnectFault \<or> flt = SelectFault then (Raise, tbl)
      else
        (case select_by_full_url u tbl of
           Some r \<Rightarrow>
             if \<not> is_link_expired (t_check clk) (created_at r)
             then (Return (ShortUrl (short_url r), 200), tbl)
             else upsert_write flt clk u (Some r) tbl
         | None \<Rightarrow> upsert_write flt clk u None tbl))"

text \<open>
  The \<open>try\<close> block of \<open>GenerateURL.post\<close>. Beside its outcome it gives the locals the
  \<open>finally\<close> block reads, \<open>counters_increased\<close> and \<open>user_id\<close>. \<open>not user_id\<close> holds of
  \<open>None\<close> and of the empty string.
\<close>

definition post_try ::
  "fault \<Rightarrow> clock \<Rightarrow> json_body \<Rightarrow> redis \<times> url_map
     \<Rightarrow> response outcome \<times> bool \<times> string option \<times> redis \<times> url_map" where
  "post_try flt clk js s =
     (case s of (rd, tbl) \<Rightarrow>
        (case j_user_id js of
           None \<Rightarrow> (Return (Error ''user_id is required'', 400), False, None, rd, tbl)
         | Some uid \<Rightarrow>
             if uid = [] then
               (Return (Error ''user_id is required'', 400), False, Some uid, rd, tbl)
             else
               (case j_full_url js of
                  None \<Rightarrow> (Return (Error ''URL is required'', 400), False, Some uid, rd, tbl)
                | Some u \<Rightarrow>
                    if u = [] then
                      (Return (Error ''URL is required'', 400), False, Some uid, rd, tbl)
                    else if flt = AdmitFault then (Raise, False, Some uid, rd, tbl)
                    else
                      (case check_rate_limit (r_admit clk) uid rd of
                         (is_allowed, rd') \<Rightarrow>
                           if \<not> is_allowed then
                             (Return (Error ''Too many concurrent requests. Please try again later.'', 429),
                              True, Some uid, rd', tbl)
                           else
                             (case upsert flt clk u tbl of
                                (out, tbl') \<Rightarrow> (out, True, Some uid, rd', tbl'))))))"

text \<open>
  \<open>GenerateURL.post\<close>: the \<open>try\<close> block, \<open>except Exception\<close> turning a raise into the
  500 response, and the \<open>finally\<close> block releasing when \<open>counters_increased\<close> is set.
\<close>

definition post :: "fault \<Rightarrow> clock \<Rightarrow> json_body \<Rightarrow> redis \<times> url_map \<Rightarrow> response \<times> redis \<times> url_map" where
  "post flt clk js s =
     (case post_try flt clk js s of
        (out, counters_increased, user_id, rd, tbl) \<Rightarrow>
          (let resp = (case out of
                         Return r \<Rightarrow> r
                       | Raise \<Rightarrow> (Error ''An error occurred'', 500));
               rd' = (if counters_increased then release (r_release clk) user_id rd else rd)
           in (resp, rd', tbl)))"

text \<open>\<open>GetFullURL.get\<close> and \<open>RedirectURL.get\<close> read the table and write nothing.\<close>

definition get_full_url :: "fault \<Rightarrow> nat \<Rightarrow> string \<Rightarrow> url_map \<Rightarrow> response" where
  "get_full_url flt now c tbl =
     (if flt = ConnectFault \<or> flt = SelectFault then (Error ''An error occurred'', 500)
      else
        (case select_by_short_url c tbl of
           None \<Rightarrow> (Error ''Full URL not found'', 404)
         | Some r \<Rightarrow>
             if is_link_expired now (created_at r) then (Error ''This link has expired'', 410)
             else (FullUrl (full_url r), 200)))"

definition redirect_url :: "fault \<Rightarrow> nat \<Rightarrow> string \<Rightarrow> url_map \<Rightarrow> response" where
  "redirect_url flt now c tbl =
     (if flt = ConnectFault \<or> flt = SelectFault then (Error ''An error occurred'', 500)
      else
        (case select_by_short_url c tbl of
           None \<Rightarrow> (Error ''Full URL not found'', 404)
         | Some r \<Rightarrow>
             if is_link_expired now (created_at r) then (Error ''This link has expired'', 410)
             else (Redirect (full_url r), 302)))"


section \<open>Properties of the code generator\<close>

lemma length_le_bytes: "length (le_bytes k w) = k"
  by (simp add: le_bytes_def)

lemma length_md5: "length (md5 m) = 16"
  by (simp add: md5_def length_le_bytes split: prod.split)

lemma length_hexdigest: "length (hexdigest bs) = 2 * length bs"
  by (induction bs) (simp_all add: hexdigest_def hex_byte_def)

lemma hex_digit_is_hex: "hex_digit n \<in> set ''0123456789abcdef''"
proof -
  have "n AND 0xf \<le> 0xf"
    by (rule word_and_le1)
  then have "unat (n AND 0xf) \<le> unat (0xf :: byte)"
    by (simp only: word_le_nat_alt)
  then have "unat (n AND 0xf) < length ''0123456789abcdef''"
    by simp
  then show ?thesis
    unfolding hex_digit_def by (rule nth_mem)
qed

lemma hexdigest_is_hex: "set (hexdigest bs) \<subseteq> set ''0123456789abcdef''"
  using hex_digit_is_hex by (induction bs) (simp_all add: hexdigest_def hex_byte_def)

text \<open>The model of the digest agrees with the test suite of RFC 1321 on \<open>abc\<close>.\<close>

lemma hexdigest_md5_abc: "hexdigest (md5 (encode ''abc'')) = ''900150983cd24fb0d6963f7d28e17f72''"
  by code_simp

lemma generate_short_url_a: "generate_short_url ''a'' = ''0cc175''"
  by code_simp

text \<open>
  C7. \<open>generate_short_url\<close> is a function of the URL alone: it reads no state, no clock and
  no salt, so equal URLs have equal codes on every call. Its result is always six characters
  long, each a lower-case hexadecimal digit.
\<close>

theorem generate_short_url_six_hex:
  "length (generate_short_url u) = 6
   \<and> set (generate_short_url u) \<subseteq> set ''0123456789abcdef''"
proof
  show "length (generate_short_url u) = 6"
    by (simp add: generate_short_url_def length_hexdigest length_md5)
  show "set (generate_short_url u) \<subseteq> set ''0123456789abcdef''"
    unfolding generate_short_url_def using hexdigest_is_hex set_take_subset by fast
qed

section \<open>Validation in \<open>GenerateURL.post\<close>\<close>

text \<open>
  C9. When \<open>full_url\<close> or \<open>user_id\<close> is missing from the body, the request is answered
  with status 400 before \<open>check_rate_limit\<close> is called: \<open>counters_increased\<close> is still
  false, and the counters and the table are as they were.
\<close>

theorem validation_precedes_admission:
  assumes "j_full_url js = None \<or> j_user_id js = None"
  shows "\<exists>msg uid.
           post_try flt clk js (rd, tbl) = (Return (Error msg, 400), False, uid, rd, tbl)
           \<and> post flt clk js (rd, tbl) = ((Error msg, 400), rd, tbl)"
  using assms by (auto simp: post_def post_try_def split: option.splits)

theorem validation_precedes_admission_witness:
  "post NoFault \<lparr>r_admit = 0, t_check = 0, t_write = 0, r_release = 0\<rparr>
     \<lparr>j_full_url = None, j_user_id = Some ''1''\<rparr> (Map.empty, [])
   = ((Error ''URL is required'', 400), Map.empty, [])"
  using validation_precedes_admission [of "\<lparr>j_full_url = None, j_user_id = Some ''1''\<rparr>" NoFault
      "\<lparr>r_admit = 0, t_check = 0, t_write = 0, r_release = 0\<rparr>" Map.empty "[]"]
  by (simp add: post_def post_try_def)

text \<open>
  C10. An empty \<open>user_id\<close> or \<open>full_url\<close> is answered like a missing one, with status 400,
  and \<open>user_id\<close> is looked at first: when it is missing or empty the error is the one about
  \<open>user_id\<close>, whatever \<open>full_url\<close> is.
\<close>

theorem empty_field_is_missing:
  "(j_user_id js = None \<or> j_user_id js = Some [] \<longrightarrow>
      post flt clk js (rd, tbl) = ((Error ''user_id is required'', 400), rd, tbl))
   \<and> (j_user_id js \<noteq> None \<and> j_user_id js \<noteq> Some []
        \<and> (j_full_url js = None \<or> j_full_url js = Some []) \<longrightarrow>
      post flt clk js (rd, tbl) = ((Error ''URL is required'', 400), rd, tbl))"
  by (auto simp: post_def post_try_def split: option.splits)

theorem empty_field_is_missing_witness:
  "post NoFault \<lparr>r_admit = 0, t_check = 0, t_write = 0, r_release = 0\<rparr>
     \<lparr>j_full_url = Some [], j_user_id = Some []\<rparr> (Map.empty, [])
   = ((Error ''user_id is required'', 400), Map.empty, [])
   \<and> post NoFault \<lparr>r_admit = 0, t_check = 0, t_write = 0, r_release = 0\<rparr>
     \<lparr>j_full_url = Some [], j_user_id = Some ''1''\<rparr> (Map.empty, [])
   = ((Error ''URL is required'', 400), Map.empty, [])"
  using empty_field_is_missing [of "\<lparr>j_full_url = Some [], j_user_id = Some []\<rparr>" NoFault
      "\<lparr>r_admit = 0, t_check = 0, t_write = 0, r_release = 0\<rparr>" Map.empty "[]"]
    empty_field_is_missing [of "\<lparr>j_full_url = Some [], j_user_id = Some ''1''\<rparr>" NoFault
      "\<lparr>r_admit = 0, t_check = 0, t_write = 0, r_release = 0\<rparr>" Map.empty "[]"]
  by simp

end
